theory Spec2Isabelle
  imports Complex_Main
begin

section \<open>JavaScript values and the runtime\<close>

text \<open>
  The server (\<^verbatim>\<open>src/openai-mcp-server.js\<close>) handles JSON values: tool arguments arrive as
  parsed JSON, upstream bodies are parsed by \<^verbatim>\<open>response.json()\<close>. A value is one of the
  JavaScript types such data can have. An object is the list of its own properties, each key
  once (what \<^verbatim>\<open>JSON.parse\<close> builds). A number is the rational it denotes. The engine
  computes in binary64: on integers of magnitude up to \<open>2^53\<close> that is exact and is modelled
  here; any other product or printed number is the runtime's.
\<close>

datatype js =
    JUndefined
  | JNull
  | JBool bool
  | JNum rat
  | JStr string
  | JArr "js list"
  | JObj "(string \<times> js) list"

text \<open>Only the message of a thrown error is ever read (\<^verbatim>\<open>error.message\<close>).\<close>

datatype exn = Error string | TypeError string | RangeError string

fun message :: "exn \<Rightarrow> string" where
  "message (Error m) = m"
| "message (TypeError m) = m"
| "message (RangeError m) = m"

text \<open>
  Errors raised by the engine itself, not by a \<^verbatim>\<open>throw\<close> of the source. Their message text is
  the engine's own and is a parameter of the model.
\<close>

datatype engine_fault =
    CannotDestructure
  | CannotReadProperty js string
  | CannotConvertToPrimitive
  | NotAFunction string
  | CalledOnNullish string
  | InvalidTimeValue

record http_request =
  url :: string
  http_method :: string
  headers :: "(string \<times> string) list"
  body :: "js option"

text \<open>
  What \<^verbatim>\<open>fetch\<close> resolves to: the \<^verbatim>\<open>ok\<close> flag, and what \<^verbatim>\<open>response.text()\<close> and
  \<^verbatim>\<open>response.json()\<close> give (either may reject, \<^verbatim>\<open>json()\<close> on a body that is not JSON).
\<close>

record response =
  ok :: bool
  text_of :: "exn + string"
  json_of :: "exn + js"

text \<open>
  Everything the handlers take from outside the source file: the upstream (\<^verbatim>\<open>fetch\<close>, which
  may reject), the API key and the \<^verbatim>\<open>DEBUG\<close> flag of the process environment, the engine's
  error messages, and the operations on numbers whose result depends on binary64:
  \<^verbatim>\<open>Number::toString\<close> and the product of two numbers outside the exact integer range, and
  \<^verbatim>\<open>StringToNumber\<close>. For a number, \<open>None\<close> is \<^verbatim>\<open>NaN\<close> or an infinity (both make an
  invalid date).
\<close>

record runtime =
  fetch :: "http_request \<Rightarrow> exn + response"
  OPENAI_API_KEY :: "string option"
  debug :: bool
  engine_message :: "engine_fault \<Rightarrow> string"
  number_format :: "rat \<Rightarrow> string"
  multiply :: "rat \<Rightarrow> rat \<Rightarrow> rat option"
  StringToNumber :: "string \<Rightarrow> rat option"

definition OPENAI_API_URL :: string where
  "OPENAI_API_URL = ''https://api.openai.com''"

subsection \<open>Conversions\<close>

text \<open>\<^verbatim>\<open>!x\<close>, \<^verbatim>\<open>x || y\<close>: the falsy values are undefined, null, false, 0 and the empty string.\<close>

fun ToBoolean :: "js \<Rightarrow> bool" where
  "ToBoolean JUndefined = False"
| "ToBoolean JNull = False"
| "ToBoolean (JBool b) = b"
| "ToBoolean (JNum n) = (n \<noteq> 0)"
| "ToBoolean (JStr s) = (s \<noteq> [])"
| "ToBoolean (JArr xs) = True"
| "ToBoolean (JObj ps) = True"

fun isArray :: "js \<Rightarrow> bool" where
  "isArray (JArr xs) = True"
| "isArray v = False"

fun decimal :: "nat \<Rightarrow> string" where
  "decimal n =
     (if n < 10 then [''0123456789'' ! n]
      else decimal (n div 10) @ [''0123456789'' ! (n mod 10)])"

declare decimal.simps [simp del]

definition throw :: "runtime \<Rightarrow> (string \<Rightarrow> exn) \<Rightarrow> engine_fault \<Rightarrow> exn + 'a" where
  "throw rt kind f = Inl (kind (engine_message rt f))"

text \<open>Sequencing: the first error thrown ends the block.\<close>

definition bind :: "exn + 'a \<Rightarrow> ('a \<Rightarrow> exn + 'b) \<Rightarrow> exn + 'b" where
  "bind m f = (case m of Inl e \<Rightarrow> Inl e | Inr x \<Rightarrow> f x)"

text \<open>
  \<^verbatim>\<open>Number::toString\<close>: an integer of magnitude up to \<open>2^53\<close> prints as its decimal digits;
  any other number is formatted by the runtime.
\<close>

definition Number_toString :: "runtime \<Rightarrow> rat \<Rightarrow> string" where
  "Number_toString rt n =
     (if of_int \<lfloor>n\<rfloor> = n \<and> \<bar>n\<bar> \<le> 9007199254740992
      then (if n < 0 then ''-'' else []) @ decimal (nat \<bar>\<lfloor>n\<rfloor>\<bar>)
      else number_format rt n)"

fun join :: "string \<Rightarrow> string list \<Rightarrow> string" where
  "join sep [] = []"
| "join sep [x] = x"
| "join sep (x # y # ys) = x @ sep @ join sep (y # ys)"

text \<open>
  \<^verbatim>\<open>ToString\<close>, the conversion applied by a template literal to \<^verbatim>\<open>${v}\<close> and by
  \<^verbatim>\<open>Array.prototype.join\<close> to each element that is not undefined or null (those print as
  nothing). An array prints its elements joined by commas. An object of parsed JSON holds no
  function: if it owns a \<^verbatim>\<open>toString\<close> property, neither that nor \<^verbatim>\<open>valueOf\<close> yields a
  primitive and the conversion throws a \<^verbatim>\<open>TypeError\<close>; otherwise the inherited
  \<^verbatim>\<open>toString\<close> prints \<^verbatim>\<open>[object Object]\<close>.
\<close>

fun ToString :: "runtime \<Rightarrow> js \<Rightarrow> exn + string"
  and element_strings :: "runtime \<Rightarrow> js list \<Rightarrow> exn + string list" where
  "ToString rt JUndefined = Inr ''undefined''"
| "ToString rt JNull = Inr ''null''"
| "ToString rt (JBool b) = Inr (if b then ''true'' else ''false'')"
| "ToString rt (JNum n) = Inr (Number_toString rt n)"
| "ToString rt (JStr s) = Inr s"
| "ToString rt (JArr xs) =
     (case element_strings rt xs of Inl e \<Rightarrow> Inl e | Inr parts \<Rightarrow> Inr (join '','' parts))"
| "ToString rt (JObj ps) =
     (if map_of ps ''toString'' \<noteq> None then throw rt TypeError CannotConvertToPrimitive
      else Inr ''[object Object]'')"
| "element_strings rt [] = Inr []"
| "element_strings rt (x # xs) =
     (case (if x = JUndefined \<or> x = JNull then Inr [] else ToString rt x) of
        Inl e \<Rightarrow> Inl e
      | Inr part \<Rightarrow>
          (case element_strings rt xs of Inl e \<Rightarrow> Inl e | Inr parts \<Rightarrow> Inr (part # parts)))"

text \<open>
  \<^verbatim>\<open>ToNumber\<close>, as the operand of \<^verbatim>\<open>*\<close>. An array or object is first converted to a
  primitive: \<^verbatim>\<open>valueOf\<close> gives none, so it is the text of \<^verbatim>\<open>ToString\<close> that is read as a
  number.
\<close>

fun ToNumber :: "runtime \<Rightarrow> js \<Rightarrow> exn + rat option" where
  "ToNumber rt JUndefined = Inr None"
| "ToNumber rt JNull = Inr (Some 0)"
| "ToNumber rt (JBool b) = Inr (Some (if b then 1 else 0))"
| "ToNumber rt (JNum n) = Inr (Some n)"
| "ToNumber rt (JStr s) = Inr (StringToNumber rt s)"
| "ToNumber rt (JArr xs) = bind (ToString rt (JArr xs)) (\<lambda>s. Inr (StringToNumber rt s))"
| "ToNumber rt (JObj ps) = bind (ToString rt (JObj ps)) (\<lambda>s. Inr (StringToNumber rt s))"

text \<open>
  The product \<^verbatim>\<open>a * b\<close> of two numbers: exact on integers while the result stays within
  \<open>2^53\<close>, the runtime's binary64 product otherwise.
\<close>

definition product :: "runtime \<Rightarrow> rat option \<Rightarrow> rat \<Rightarrow> rat option" where
  "product rt a b =
     (case a of
        None \<Rightarrow> None
      | Some x \<Rightarrow>
          if of_int \<lfloor>x\<rfloor> = x \<and> of_int \<lfloor>b\<rfloor> = b \<and> \<bar>x * b\<bar> \<le> 9007199254740992
          then Some (x * b)
          else multiply rt x b)"

text \<open>
  \<^verbatim>\<open>log(...args)\<close>: nothing unless \<^verbatim>\<open>DEBUG\<close> is set; then \<^verbatim>\<open>args.join(" ")\<close> converts each
  argument to text, which throws where \<^verbatim>\<open>ToString\<close> does. The line is written to the error
  stream and, inside a \<^verbatim>\<open>try\<close> of its own, to a file; neither is part of what a handler
  returns.
\<close>

definition log_call :: "runtime \<Rightarrow> js list \<Rightarrow> exn + unit" where
  "log_call rt args =
     (if debug rt then bind (element_strings rt args) (\<lambda>parts. Inr ()) else Inr ())"

text \<open>
  Property read \<^verbatim>\<open>v.k\<close> and \<^verbatim>\<open>v[0]\<close> for the keys the source reads. None of them but
  \<^verbatim>\<open>length\<close> and \<^verbatim>\<open>0\<close> is defined on a built-in prototype, so on anything but an object
  that owns the key the read gives undefined; on undefined and null it throws.
\<close>

fun nullish :: "js \<Rightarrow> bool" where
  "nullish JUndefined = True"
| "nullish JNull = True"
| "nullish v = False"

fun property :: "js \<Rightarrow> string \<Rightarrow> js" where
  "property (JObj ps) k = (case map_of ps k of Some v \<Rightarrow> v | None \<Rightarrow> JUndefined)"
| "property (JArr xs) k =
     (if k = ''length'' then JNum (of_nat (length xs))
      else if k = ''0'' then (case xs of [] \<Rightarrow> JUndefined | x # _ \<Rightarrow> x)
      else JUndefined)"
| "property (JStr s) k =
     (if k = ''length'' then JNum (of_nat (length s))
      else if k = ''0'' then (case s of [] \<Rightarrow> JUndefined | c # _ \<Rightarrow> JStr [c])
      else JUndefined)"
| "property v k = JUndefined"

definition Get :: "runtime \<Rightarrow> js \<Rightarrow> string \<Rightarrow> exn + js" where
  "Get rt v k =
     (if nullish v then throw rt TypeError (CannotReadProperty v k) else Inr (property v k))"

subsection \<open>Dates\<close>

text \<open>
  \<^verbatim>\<open>new Date(v)\<close> for a number: the time value is \<^verbatim>\<open>NaN\<close> when \<open>v\<close> is, or lies more
  than \<open>8.64e15\<close> ms from the epoch; otherwise \<open>v\<close> truncated towards zero.
\<close>

definition TimeClip :: "rat option \<Rightarrow> int option" where
  "TimeClip v =
     (case v of
        None \<Rightarrow> None
      | Some t \<Rightarrow>
          if \<bar>t\<bar> > 8640000000000000 then None
          else Some (if t < 0 then - \<lfloor>- t\<rfloor> else \<lfloor>t\<rfloor>))"

definition pad :: "nat \<Rightarrow> nat \<Rightarrow> string" where
  "pad w n = replicate (w - length (decimal n)) (CHR ''0'') @ decimal n"

text \<open>Year, month and day of a day number counted from 1970-01-01 (proleptic Gregorian).\<close>

definition civil :: "int \<Rightarrow> int \<times> int \<times> int" where
  "civil days =
     (let z = days + 719468;
          era = z div 146097;
          doe = z - era * 146097;
          yoe = (doe - doe div 1460 + doe div 36524 - doe div 146096) div 365;
          doy = doe - (365 * yoe + yoe div 4 - yoe div 100);
          mp = (5 * doy + 2) div 153;
          d = doy - (153 * mp + 2) div 5 + 1;
          m = (if mp < 10 then mp + 3 else mp - 9);
          y = yoe + era * 400 + (if m \<le> 2 then 1 else 0)
      in (y, m, d))"

text \<open>
  The text of a valid time value: \<^verbatim>\<open>YYYY-MM-DDTHH:mm:ss.sssZ\<close>, the year with a sign and six
  digits outside 0 to 9999.
\<close>

definition iso_string :: "int \<Rightarrow> string" where
  "iso_string t =
     (let days = t div 86400000;
          ms = nat (t mod 86400000);
          (y, m, d) = civil days;
          year = (if 0 \<le> y \<and> y \<le> 9999 then pad 4 (nat y)
                  else (if y < 0 then ''-'' else ''+'') @ pad 6 (nat \<bar>y\<bar>))
      in year @ ''-'' @ pad 2 (nat m) @ ''-'' @ pad 2 (nat d) @ ''T''
         @ pad 2 (ms div 3600000) @ '':'' @ pad 2 (ms div 60000 mod 60) @ '':''
         @ pad 2 (ms div 1000 mod 60) @ ''.'' @ pad 3 (ms mod 1000) @ ''Z'')"

text \<open>\<^verbatim>\<open>new Date(v).toISOString()\<close>: a \<^verbatim>\<open>RangeError\<close> on an invalid date.\<close>

definition toISOString :: "runtime \<Rightarrow> rat option \<Rightarrow> exn + string" where
  "toISOString rt v =
     (case TimeClip v of
        None \<Rightarrow> throw rt RangeError InvalidTimeValue
      | Some t \<Rightarrow> Inr (iso_string t))"

section \<open>The tool handlers\<close>

text \<open>
  A handler is modelled by what it returns or throws, paired with the list of upstream calls
  it issued, in order. The tool name of a request is a string and its \<^verbatim>\<open>arguments\<close> are
  parsed JSON, undefined when the caller sent none.

  Of the calls of \<^verbatim>\<open>log\<close>, the two that print the \<^verbatim>\<open>model\<close> argument are modelled: they
  stand before the \<^verbatim>\<open>try\<close> of chatCompletion and createEmbedding and throw when the model
  cannot be converted to text. Every other call prints string literals, the tool name, the
  result of \<^verbatim>\<open>JSON.stringify\<close> (a string, or undefined, which prints as nothing), a
  response text, or a caught error object, whose \<^verbatim>\<open>toString\<close> gives its name and message;
  none of these conversions throws, so those calls are left out.
\<close>

record content_item =
  item_type :: string
  item_text :: js

text \<open>
  The object a handler returns. \<open>metadata\<close> and \<open>isError\<close> are \<open>None\<close> when the object
  literal has no such property.
\<close>

record envelope =
  content :: "content_item list"
  metadata :: "(string \<times> js) list option"
  isError :: "bool option"

record params =
  name :: string
  arguments :: js

record request =
  params :: params

definition newline :: string where
  "newline = [CHR 0x0A]"

definition authorization :: "runtime \<Rightarrow> string" where
  "authorization rt =
     ''Bearer '' @ (case OPENAI_API_KEY rt of None \<Rightarrow> ''undefined'' | Some k \<Rightarrow> k)"

definition request_headers :: "runtime \<Rightarrow> (string \<times> string) list" where
  "request_headers rt =
     [(''Authorization'', authorization rt), (''Content-Type'', ''application/json'')]"

text \<open>
  \<^verbatim>\<open>if (!response.ok) { const error = await response.text(); throw new Error(...) }\<close>,
  the same in the three handlers.
\<close>

definition check_ok :: "response \<Rightarrow> exn + unit" where
  "check_ok response =
     (if \<not> ok response
      then bind (text_of response) (\<lambda>errorText. Inl (Error (''OpenAI API error: '' @ errorText)))
      else Inr ())"

definition text_item :: "js \<Rightarrow> content_item" where
  "text_item t = \<lparr>item_type = ''text'', item_text = t\<rparr>"

subsection \<open>listModels\<close>

text \<open>The callback of \<^verbatim>\<open>data.data.map\<close>.\<close>

definition format_model :: "runtime \<Rightarrow> js \<Rightarrow> exn + string" where
  "format_model rt model =
     bind (Get rt model ''id'') (\<lambda>id.
     bind (ToString rt id) (\<lambda>id_text.
     bind (Get rt model ''created'') (\<lambda>created.
     bind (ToNumber rt created) (\<lambda>seconds.
     bind (toISOString rt (product rt seconds 1000)) (\<lambda>iso.
     Inr (''- '' @ id_text @ '' (created: '' @ iso @ '')''))))))"

fun format_models :: "runtime \<Rightarrow> js list \<Rightarrow> exn + string list" where
  "format_models rt [] = Inr []"
| "format_models rt (model # models) =
     bind (format_model rt model) (\<lambda>line.
     bind (format_models rt models) (\<lambda>lines. Inr (line # lines)))"

text \<open>
  \<^verbatim>\<open>list.map(...)\<close>: only an array has a callable \<^verbatim>\<open>map\<close> (parsed JSON holds no
  function).
\<close>

definition map_models :: "runtime \<Rightarrow> js \<Rightarrow> exn + string list" where
  "map_models rt list =
     (case list of
        JArr models \<Rightarrow> format_models rt models
      | JUndefined \<Rightarrow> throw rt TypeError (CannotReadProperty list ''map'')
      | JNull \<Rightarrow> throw rt TypeError (CannotReadProperty list ''map'')
      | _ \<Rightarrow> throw rt TypeError (NotAFunction ''data.data.map''))"

definition listModels_request :: "runtime \<Rightarrow> http_request" where
  "listModels_request rt =
     \<lparr>url = OPENAI_API_URL @ ''/v1/models'', http_method = ''GET'',
      headers = request_headers rt, body = None\<rparr>"

text \<open>The \<^verbatim>\<open>try\<close> block, with the upstream calls it issued.\<close>

definition listModels_try :: "runtime \<Rightarrow> (exn + envelope) \<times> http_request list" where
  "listModels_try rt =
     (bind (fetch rt (listModels_request rt)) (\<lambda>response.
      bind (check_ok response) (\<lambda>_.
      bind (json_of response) (\<lambda>data.
      bind (Get rt data ''data'') (\<lambda>list.
      bind (map_models rt list) (\<lambda>lines.
      bind (Get rt list ''length'') (\<lambda>count.
      Inr \<lparr>content =
             [text_item (JStr (''Available OpenAI Models:'' @ newline @ newline
                               @ join newline lines))],
           metadata = Some [(''count'', count)],
           isError = None\<rparr>)))))),
      [listModels_request rt])"

definition listModels :: "runtime \<Rightarrow> (exn + envelope) \<times> http_request list" where
  "listModels rt =
     (case listModels_try rt of
        (Inl error, calls) \<Rightarrow>
          (Inr \<lparr>content = [text_item (JStr (''Error listing models: '' @ message error))],
                metadata = Some [],
                isError = Some True\<rparr>, calls)
      | (Inr result, calls) \<Rightarrow> (Inr result, calls))"

subsection \<open>chatCompletion\<close>

definition openaiRequest_chat :: "js \<Rightarrow> js \<Rightarrow> js \<Rightarrow> js \<Rightarrow> js" where
  "openaiRequest_chat model messages temperature max_tokens =
     JObj [(''model'', if ToBoolean model then model else JStr ''gpt-3.5-turbo''),
           (''messages'', messages),
           (''temperature'', if temperature \<noteq> JUndefined then temperature else JNum (7 / 10)),
           (''max_tokens'', if max_tokens \<noteq> JUndefined then max_tokens else JNum 150),
           (''stream'', JBool False)]"

text \<open>
  The POST of chatCompletion and createEmbedding. The body is kept as the object handed to
  \<^verbatim>\<open>JSON.stringify\<close>; no property of it is undefined, so the text sent holds all of them.
\<close>

definition post_request :: "runtime \<Rightarrow> string \<Rightarrow> js \<Rightarrow> http_request" where
  "post_request rt path openaiRequest =
     \<lparr>url = OPENAI_API_URL @ path, http_method = ''POST'',
      headers = request_headers rt, body = Some openaiRequest\<rparr>"

definition chatCompletion_try ::
  "runtime \<Rightarrow> js \<Rightarrow> js \<Rightarrow> js \<Rightarrow> js \<Rightarrow> (exn + envelope) \<times> http_request list" where
  "chatCompletion_try rt model messages temperature max_tokens =
     (if \<not> ToBoolean messages \<or> \<not> isArray messages \<or> property messages ''length'' = JNum 0
      then (Inl (Error ''Messages array is required and must not be empty''), [])
      else
        let req = post_request rt ''/v1/chat/completions''
                    (openaiRequest_chat model messages temperature max_tokens)
        in (bind (fetch rt req) (\<lambda>response.
            bind (check_ok response) (\<lambda>_.
            bind (json_of response) (\<lambda>data.
            bind (Get rt data ''choices'') (\<lambda>choices.
            bind (Get rt choices ''0'') (\<lambda>choice.
            bind (Get rt choice ''message'') (\<lambda>msg.
            bind (Get rt msg ''content'') (\<lambda>assistantMessage.
            Inr \<lparr>content = [text_item assistantMessage],
                 metadata = Some [(''model'', property data ''model''),
                                  (''usage'', property data ''usage''),
                                  (''finish_reason'', property choice ''finish_reason'')],
                 isError = None\<rparr>))))))),
            [req]))"

text \<open>The \<^verbatim>\<open>catch\<close> block of chatCompletion and of createEmbedding.\<close>

definition catch_error :: "(exn + envelope) \<times> http_request list \<Rightarrow>
    (exn + envelope) \<times> http_request list" where
  "catch_error r =
     (case r of
        (Inl error, calls) \<Rightarrow>
          (Inr \<lparr>content = [text_item (JStr (''Error: '' @ message error))],
                metadata = Some [],
                isError = Some True\<rparr>, calls)
      | (Inr result, calls) \<Rightarrow> (Inr result, calls))"

text \<open>
  The destructuring of \<^verbatim>\<open>request.params.arguments\<close> and the first \<^verbatim>\<open>log\<close> stand before
  the \<^verbatim>\<open>try\<close>: on a request without arguments, or with a model the log cannot print, the
  \<^verbatim>\<open>TypeError\<close> leaves the handler.
\<close>

definition chatCompletion :: "runtime \<Rightarrow> request \<Rightarrow> (exn + envelope) \<times> http_request list" where
  "chatCompletion rt request =
     (let args = arguments (params request)
      in if nullish args then (throw rt TypeError CannotDestructure, [])
         else
           case log_call rt [JStr ''Executing chatCompletion with model:'', property args ''model''] of
             Inl e \<Rightarrow> (Inl e, [])
           | Inr _ \<Rightarrow>
               catch_error
                 (chatCompletion_try rt (property args ''model'') (property args ''messages'')
                    (property args ''temperature'') (property args ''max_tokens'')))"

subsection \<open>createEmbedding\<close>

definition openaiRequest_embedding :: "js \<Rightarrow> js \<Rightarrow> js" where
  "openaiRequest_embedding model input =
     JObj [(''model'', if ToBoolean model then model else JStr ''text-embedding-ada-002''),
           (''input'', input)]"

definition createEmbedding_try ::
  "runtime \<Rightarrow> js \<Rightarrow> js \<Rightarrow> (exn + envelope) \<times> http_request list" where
  "createEmbedding_try rt model input =
     (if \<not> ToBoolean input
      then (Inl (Error ''Input is required''), [])
      else
        let req = post_request rt ''/v1/embeddings'' (openaiRequest_embedding model input)
        in (bind (fetch rt req) (\<lambda>response.
            bind (check_ok response) (\<lambda>_.
            bind (json_of response) (\<lambda>data.
            bind (Get rt data ''data'') (\<lambda>list.
            bind (Get rt list ''0'') (\<lambda>first.
            bind (Get rt first ''embedding'') (\<lambda>embedding.
            bind (Get rt embedding ''length'') (\<lambda>dimension.
            bind (ToString rt dimension) (\<lambda>dimension_text.
            Inr \<lparr>content =
                   [text_item (JStr (''Embedding generated successfully. Vector dimension: ''
                                     @ dimension_text))],
                 metadata = Some [(''model'', property data ''model''),
                                  (''usage'', property data ''usage'')],
                 isError = None\<rparr>)))))))),
            [req]))"

definition createEmbedding :: "runtime \<Rightarrow> request \<Rightarrow> (exn + envelope) \<times> http_request list" where
  "createEmbedding rt request =
     (let args = arguments (params request)
      in if nullish args then (throw rt TypeError CannotDestructure, [])
         else
           case log_call rt [JStr ''Executing createEmbedding with model:'', property args ''model''] of
             Inl e \<Rightarrow> (Inl e, [])
           | Inr _ \<Rightarrow>
               catch_error
                 (createEmbedding_try rt (property args ''model'') (property args ''input'')))"

section \<open>The server\<close>

subsection \<open>Tool discovery\<close>

definition LIST_MODELS_TOOL :: js where
  "LIST_MODELS_TOOL =
     JObj [(''name'', JStr ''listModels''),
           (''description'', JStr ''List available OpenAI models''),
           (''inputSchema'',
              JObj [(''type'', JStr ''object''), (''properties'', JObj []),
                    (''required'', JArr [])])]"

definition CHAT_COMPLETION_TOOL :: js where
  "CHAT_COMPLETION_TOOL =
     JObj [(''name'', JStr ''chatCompletion''),
           (''description'', JStr ''Generate a response using OpenAI's chat completion API''),
           (''inputSchema'',
              JObj [(''type'', JStr ''object''),
                    (''properties'',
                       JObj [(''model'',
                                JObj [(''type'', JStr ''string''),
                                      (''description'',
                                         JStr ''The model to use (e.g., gpt-3.5-turbo, gpt-4)'')]),
                             (''messages'',
                                JObj [(''type'', JStr ''array''),
                                      (''description'', JStr ''The conversation messages''),
                                      (''items'',
                                         JObj [(''type'', JStr ''object''),
                                               (''properties'',
                                                  JObj [(''role'',
                                                           JObj [(''type'', JStr ''string''),
                                                                 (''description'',
                                                                    JStr ''The role of the message sender (system, user, assistant)'')]),
                                                        (''content'',
                                                           JObj [(''type'', JStr ''string''),
                                                                 (''description'',
                                                                    JStr ''The content of the message'')])])])]),
                             (''temperature'',
                                JObj [(''type'', JStr ''number''),
                                      (''description'', JStr ''Controls randomness (0-1)'')]),
                             (''max_tokens'',
                                JObj [(''type'', JStr ''number''),
                                      (''description'',
                                         JStr ''Maximum number of tokens to generate'')])]),
                    (''required'', JArr [JStr ''messages''])])]"

definition CREATE_EMBEDDING_TOOL :: js where
  "CREATE_EMBEDDING_TOOL =
     JObj [(''name'', JStr ''createEmbedding''),
           (''description'',
              JStr ''Generate embeddings for text using OpenAI's embedding API''),
           (''inputSchema'',
              JObj [(''type'', JStr ''object''),
                    (''properties'',
                       JObj [(''model'',
                                JObj [(''type'', JStr ''string''),
                                      (''description'',
                                         JStr ''The model to use (e.g., text-embedding-ada-002)'')]),
                             (''input'',
                                JObj [(''type'', JArr [JStr ''string'', JStr ''array'']),
                                      (''description'',
                                         JStr ''The text to embed, can be a string or array of strings'')])]),
                    (''required'', JArr [JStr ''input''])])]"

text \<open>
  The handler of \<^verbatim>\<open>ListToolsRequestSchema\<close>: it builds the three descriptors and returns
  them; it reads nothing of the runtime and issues no upstream call.
\<close>

definition ListToolsRequest_handler :: "runtime \<Rightarrow> (exn + js) \<times> http_request list" where
  "ListToolsRequest_handler rt =
     (Inr (JObj [(''tools'',
                  JArr [LIST_MODELS_TOOL, CHAT_COMPLETION_TOOL, CREATE_EMBEDDING_TOOL])]), [])"

subsection \<open>Tool calls\<close>

text \<open>
  \<^verbatim>\<open>HANDLERS[toolName]\<close> is a property read on an object literal: it finds the three own
  properties and, for any other key, what the object inherits from \<^verbatim>\<open>Object.prototype\<close>:
  eleven built-in functions, and under \<^verbatim>\<open>__proto__\<close> the prototype object itself.
\<close>

datatype tool = ListModels | ChatCompletion | CreateEmbedding

datatype handler_value = Own tool | Builtin string | Prototype | Absent

definition Object_prototype_functions :: "string list" where
  "Object_prototype_functions =
     [''constructor'', ''__defineGetter__'', ''__defineSetter__'', ''hasOwnProperty'',
      ''__lookupGetter__'', ''__lookupSetter__'', ''isPrototypeOf'', ''propertyIsEnumerable'',
      ''toString'', ''valueOf'', ''toLocaleString'']"

definition HANDLERS :: "string \<Rightarrow> handler_value" where
  "HANDLERS toolName =
     (if toolName = ''listModels'' then Own ListModels
      else if toolName = ''chatCompletion'' then Own ChatCompletion
      else if toolName = ''createEmbedding'' then Own CreateEmbedding
      else if toolName \<in> set Object_prototype_functions then Builtin toolName
      else if toolName = ''__proto__'' then Prototype
      else Absent)"

text \<open>
  What the invocation hands back: an envelope built by this file or, when the handler found is
  a built-in, that built-in's own result.
\<close>

datatype returned = Envelope envelope | RequestObject request | StringValue string

text \<open>
  A built-in of \<^verbatim>\<open>Object.prototype\<close> called as \<^verbatim>\<open>handler(request)\<close>, its receiver
  undefined: \<^verbatim>\<open>Object(request)\<close> is the request, \<^verbatim>\<open>toString\<close> answers for the undefined
  receiver, every other one throws on it.
\<close>

definition call_builtin :: "runtime \<Rightarrow> string \<Rightarrow> request \<Rightarrow> exn + returned" where
  "call_builtin rt f request =
     (if f = ''constructor'' then Inr (RequestObject request)
      else if f = ''toString'' then Inr (StringValue ''[object Undefined]'')
      else throw rt TypeError (CalledOnNullish f))"

definition run_tool :: "runtime \<Rightarrow> tool \<Rightarrow> request \<Rightarrow> (exn + envelope) \<times> http_request list" where
  "run_tool rt t request =
     (case t of
        ListModels \<Rightarrow> listModels rt
      | ChatCompletion \<Rightarrow> chatCompletion rt request
      | CreateEmbedding \<Rightarrow> createEmbedding rt request)"

text \<open>The \<^verbatim>\<open>try\<close> block of the handler of \<^verbatim>\<open>CallToolRequestSchema\<close>.\<close>

definition CallToolRequest_try :: "runtime \<Rightarrow> request \<Rightarrow> (exn + returned) \<times> http_request list" where
  "CallToolRequest_try rt request =
     (let toolName = name (params request)
      in case HANDLERS toolName of
           Absent \<Rightarrow> (Inl (Error (''Unknown tool: '' @ toolName)), [])
         | Own t \<Rightarrow>
             (case run_tool rt t request of
                (Inl e, calls) \<Rightarrow> (Inl e, calls)
              | (Inr result, calls) \<Rightarrow> (Inr (Envelope result), calls))
         | Builtin f \<Rightarrow> (call_builtin rt f request, [])
         | Prototype \<Rightarrow> (throw rt TypeError (NotAFunction ''handler''), []))"

text \<open>
  The handler with its \<^verbatim>\<open>catch\<close>: the envelope built there has no \<^verbatim>\<open>metadata\<close>
  property.
\<close>

definition CallToolRequest_handler ::
  "runtime \<Rightarrow> request \<Rightarrow> (exn + returned) \<times> http_request list" where
  "CallToolRequest_handler rt request =
     (case CallToolRequest_try rt request of
        (Inl error, calls) \<Rightarrow>
          (Inr (Envelope \<lparr>content = [text_item (JStr (''Error: '' @ message error))],
                          metadata = None,
                          isError = Some True\<rparr>), calls)
      | (Inr result, calls) \<Rightarrow> (Inr result, calls))"

subsection \<open>Stub upstreams\<close>

text \<open>
  Runtimes for the examples, with \<^verbatim>\<open>DEBUG\<close> set: an upstream that cannot be reached, and one
  that answers every request with a given status, raw body and parsed body.
\<close>

definition stub_runtime :: "(http_request \<Rightarrow> exn + response) \<Rightarrow> runtime" where
  "stub_runtime upstream =
     \<lparr>fetch = upstream, OPENAI_API_KEY = Some ''sk-test'', debug = True,
      engine_message = (\<lambda>f. ''engine fault''),
      number_format = (\<lambda>n. ''NaN''), multiply = (\<lambda>a b. None),
      StringToNumber = (\<lambda>s. None)\<rparr>"

definition unreachable :: "http_request \<Rightarrow> exn + response" where
  "unreachable req = Inl (TypeError ''fetch failed'')"

definition replies :: "bool \<Rightarrow> string \<Rightarrow> js \<Rightarrow> http_request \<Rightarrow> exn + response" where
  "replies status raw parsed req = Inr \<lparr>ok = status, text_of = Inr raw, json_of = Inr parsed\<rparr>"

section \<open>Properties\<close>

subsection \<open>Auxiliary facts\<close>

lemma HANDLERS_Absent:
  "HANDLERS n = Absent \<longleftrightarrow>
     n \<noteq> ''listModels'' \<and> n \<noteq> ''chatCompletion'' \<and> n \<noteq> ''createEmbedding''
     \<and> n \<notin> set Object_prototype_functions \<and> n \<noteq> ''__proto__''"
  by (simp add: HANDLERS_def)

lemma snd_catch_error: "snd (catch_error r) = snd r"
  by (cases r) (simp add: catch_error_def split: sum.splits)

lemma catch_error_Inl:
  "catch_error (Inl e, calls) =
     (Inr \<lparr>content = [\<lparr>item_type = ''text'', item_text = JStr (''Error: '' @ message e)\<rparr>],
           metadata = Some [], isError = Some True\<rparr>, calls)"
  by (simp add: catch_error_def text_item_def)

lemma catch_error_Inr: "catch_error (Inr result, calls) = (Inr result, calls)"
  by (simp add: catch_error_def)

text \<open>The log prints what is not an object or array, whatever the flag.\<close>

lemma log_call_primitive:
  assumes "\<And>xs. v \<noteq> JArr xs" and "\<And>ps. v \<noteq> JObj ps"
  shows "log_call rt [JStr label, v] = Inr ()"
  using assms by (cases v) (auto simp add: log_call_def bind_def)

lemma log_call_quiet: "\<not> debug rt \<Longrightarrow> log_call rt args = Inr ()"
  by (simp add: log_call_def)

lemma log_call_cases: "log_call rt args = Inr () \<or> (\<exists>e. log_call rt args = Inl e)"
  by (cases "log_call rt args") simp_all

lemma chatCompletion_try_valid:
  "chatCompletion_try rt model (JArr (m # ms)) temperature max_tokens =
     (bind (fetch rt (post_request rt ''/v1/chat/completions''
                        (openaiRequest_chat model (JArr (m # ms)) temperature max_tokens)))
        (\<lambda>response.
          bind (check_ok response) (\<lambda>_.
          bind (json_of response) (\<lambda>data.
          bind (Get rt data ''choices'') (\<lambda>choices.
          bind (Get rt choices ''0'') (\<lambda>choice.
          bind (Get rt choice ''message'') (\<lambda>msg.
          bind (Get rt msg ''content'') (\<lambda>assistantMessage.
          Inr \<lparr>content = [text_item assistantMessage],
               metadata = Some [(''model'', property data ''model''),
                                (''usage'', property data ''usage''),
                                (''finish_reason'', property choice ''finish_reason'')],
               isError = None\<rparr>))))))),
      [post_request rt ''/v1/chat/completions''
         (openaiRequest_chat model (JArr (m # ms)) temperature max_tokens)])"
  by (simp add: chatCompletion_try_def Let_def)

lemma chatCompletion_try_invalid:
  assumes "\<And>m ms. messages \<noteq> JArr (m # ms)"
  shows "chatCompletion_try rt model messages temperature max_tokens =
           (Inl (Error ''Messages array is required and must not be empty''), [])"
proof (cases messages)
  case (JArr xs)
  with assms have "xs = []" by (cases xs) auto
  with JArr show ?thesis by (simp add: chatCompletion_try_def)
qed (simp_all add: chatCompletion_try_def)

text \<open>The handlers once the destructuring and the first log have passed.\<close>

lemma chatCompletion_enters:
  assumes "\<not> nullish (arguments (params request))"
    and "log_call rt [JStr ''Executing chatCompletion with model:'',
                      property (arguments (params request)) ''model''] = Inr ()"
  shows "chatCompletion rt request =
           catch_error
             (chatCompletion_try rt (property (arguments (params request)) ''model'')
                (property (arguments (params request)) ''messages'')
                (property (arguments (params request)) ''temperature'')
                (property (arguments (params request)) ''max_tokens''))"
  using assms by (simp add: chatCompletion_def Let_def)

lemma createEmbedding_enters:
  assumes "\<not> nullish (arguments (params request))"
    and "log_call rt [JStr ''Executing createEmbedding with model:'',
                      property (arguments (params request)) ''model''] = Inr ()"
  shows "createEmbedding rt request =
           catch_error
             (createEmbedding_try rt (property (arguments (params request)) ''model'')
                (property (arguments (params request)) ''input''))"
  using assms by (simp add: createEmbedding_def Let_def)

text \<open>The handlers when one of the two fails: the error leaves, and nothing was called.\<close>

lemma chatCompletion_leaves:
  "nullish (arguments (params request)) \<Longrightarrow>
     chatCompletion rt request = (Inl (TypeError (engine_message rt CannotDestructure)), [])"
  "\<not> nullish (arguments (params request)) \<Longrightarrow>
     log_call rt [JStr ''Executing chatCompletion with model:'',
                  property (arguments (params request)) ''model''] = Inl e \<Longrightarrow>
     chatCompletion rt request = (Inl e, [])"
  by (simp_all add: chatCompletion_def Let_def throw_def)

lemma createEmbedding_leaves:
  "nullish (arguments (params request)) \<Longrightarrow>
     createEmbedding rt request = (Inl (TypeError (engine_message rt CannotDestructure)), [])"
  "\<not> nullish (arguments (params request)) \<Longrightarrow>
     log_call rt [JStr ''Executing createEmbedding with model:'',
                  property (arguments (params request)) ''model''] = Inl e \<Longrightarrow>
     createEmbedding rt request = (Inl e, [])"
  by (simp_all add: createEmbedding_def Let_def throw_def)

lemma chatCompletion_calls:
  assumes "\<not> nullish (arguments (params request))"
    and "log_call rt [JStr ''Executing chatCompletion with model:'',
                      property (arguments (params request)) ''model''] = Inr ()"
    and "property (arguments (params request)) ''messages'' = JArr (m # ms)"
  shows "snd (chatCompletion rt request) =
           [post_request rt ''/v1/chat/completions''
              (openaiRequest_chat (property (arguments (params request)) ''model'')
                 (JArr (m # ms))
                 (property (arguments (params request)) ''temperature'')
                 (property (arguments (params request)) ''max_tokens''))]"
  using assms(3)
  by (simp add: chatCompletion_enters [OF assms(1,2)] snd_catch_error chatCompletion_try_valid)

lemma createEmbedding_try_calls:
  "snd (createEmbedding_try rt model input) =
     (if ToBoolean input
      then [post_request rt ''/v1/embeddings'' (openaiRequest_embedding model input)]
      else [])"
  by (simp add: createEmbedding_try_def Let_def)

lemma createEmbedding_try_falsy:
  "\<not> ToBoolean input \<Longrightarrow>
     createEmbedding_try rt model input = (Inl (Error ''Input is required''), [])"
  by (simp add: createEmbedding_try_def)

subsection \<open>Unknown tools\<close>

text \<open>
  Claim C2, as amended. A tool name that is neither one of the three registered handlers nor
  a property the handler table inherits from \<^verbatim>\<open>Object.prototype\<close> is answered with the
  envelope whose single text item reads \<^verbatim>\<open>Error: Unknown tool: <name>\<close>, with
  \<^verbatim>\<open>isError: true\<close> and no metadata; the invocation returns (it does not throw) and calls
  no upstream.
\<close>

theorem unknown_tool_error_envelope:
  assumes "name (params request) \<noteq> ''listModels''"
    and "name (params request) \<noteq> ''chatCompletion''"
    and "name (params request) \<noteq> ''createEmbedding''"
    and "name (params request) \<notin> set Object_prototype_functions"
    and "name (params request) \<noteq> ''__proto__''"
  shows "CallToolRequest_handler rt request =
           (Inr (Envelope \<lparr>content =
                             [\<lparr>item_type = ''text'',
                               item_text = JStr (''Error: Unknown tool: '' @ name (params request))\<rparr>],
                           metadata = None, isError = Some True\<rparr>), [])"
proof -
  from assms have "HANDLERS (name (params request)) = Absent"
    by (simp add: HANDLERS_Absent)
  then show ?thesis
    by (simp add: CallToolRequest_handler_def CallToolRequest_try_def text_item_def)
qed

theorem unknown_tool_error_envelope_witness:
  "''foo'' \<notin> set Object_prototype_functions
   \<and> CallToolRequest_handler (stub_runtime unreachable)
       \<lparr>params = \<lparr>name = ''foo'', arguments = JObj []\<rparr>\<rparr> =
     (Inr (Envelope \<lparr>content = [\<lparr>item_type = ''text'', item_text = JStr ''Error: Unknown tool: foo''\<rparr>],
                     metadata = None, isError = Some True\<rparr>), [])"
  using unknown_tool_error_envelope
    [of "\<lparr>params = \<lparr>name = ''foo'', arguments = JObj []\<rparr>\<rparr>" "stub_runtime unreachable"]
  by (simp add: Object_prototype_functions_def)

text \<open>
  The claim as written fails: for the unregistered name \<^verbatim>\<open>foo\<close> the text is not
  \<^verbatim>\<open>Unknown tool: foo\<close> (the \<^verbatim>\<open>catch\<close> of the dispatcher prefixes \<^verbatim>\<open>Error: \<close>).
\<close>

theorem unknown_tool_text_counterexample:
  "fst (CallToolRequest_handler (stub_runtime unreachable)
          \<lparr>params = \<lparr>name = ''foo'', arguments = JObj []\<rparr>\<rparr>) \<noteq>
     Inr (Envelope \<lparr>content = [\<lparr>item_type = ''text'', item_text = JStr ''Unknown tool: foo''\<rparr>],
                    metadata = None, isError = Some True\<rparr>)"
  by (simp add: CallToolRequest_handler_def CallToolRequest_try_def HANDLERS_def
      Object_prototype_functions_def text_item_def)

subsection \<open>Validation before the upstream call\<close>

text \<open>
  Claim C3, as amended. When createEmbedding reaches its \<^verbatim>\<open>try\<close> block (the request has an
  arguments object, and the log before the block could print the model), it fails with
  \<^verbatim>\<open>Input is required\<close> exactly when \<^verbatim>\<open>input\<close> is falsy (absent, null, false, 0 or the
  empty string): then the result is the error envelope with text
  \<^verbatim>\<open>Error: Input is required\<close> and no upstream call is made; a truthy input proceeds to
  exactly one upstream call, the POST of model and input to the embeddings endpoint.
\<close>

theorem createEmbedding_requires_truthy_input:
  assumes "\<not> nullish (arguments (params request))"
    and "log_call rt [JStr ''Executing createEmbedding with model:'',
                      property (arguments (params request)) ''model''] = Inr ()"
  shows "(if ToBoolean (property (arguments (params request)) ''input'')
          then snd (createEmbedding rt request) =
                 [\<lparr>url = ''https://api.openai.com/v1/embeddings'', http_method = ''POST'',
                   headers = request_headers rt,
                   body = Some (JObj [(''model'',
                                       if ToBoolean (property (arguments (params request)) ''model'')
                                       then property (arguments (params request)) ''model''
                                       else JStr ''text-embedding-ada-002''),
                                      (''input'', property (arguments (params request)) ''input'')])\<rparr>]
          else createEmbedding rt request =
                 (Inr \<lparr>content =
                         [\<lparr>item_type = ''text'', item_text = JStr ''Error: Input is required''\<rparr>],
                       metadata = Some [], isError = Some True\<rparr>, []))"
  by (simp add: createEmbedding_enters [OF assms] snd_catch_error createEmbedding_try_calls
      createEmbedding_try_falsy catch_error_Inl post_request_def openaiRequest_embedding_def
      OPENAI_API_URL_def)

theorem createEmbedding_requires_truthy_input_witness:
  "snd (createEmbedding (stub_runtime unreachable)
          \<lparr>params = \<lparr>name = ''createEmbedding'',
             arguments = JObj [(''input'', JStr ''hello'')]\<rparr>\<rparr>) =
     [\<lparr>url = ''https://api.openai.com/v1/embeddings'', http_method = ''POST'',
       headers = request_headers (stub_runtime unreachable),
       body = Some (JObj [(''model'', JStr ''text-embedding-ada-002''),
                          (''input'', JStr ''hello'')])\<rparr>]
   \<and> createEmbedding (stub_runtime unreachable)
        \<lparr>params = \<lparr>name = ''createEmbedding'', arguments = JObj [(''input'', JNull)]\<rparr>\<rparr> =
     (Inr \<lparr>content = [\<lparr>item_type = ''text'', item_text = JStr ''Error: Input is required''\<rparr>],
           metadata = Some [], isError = Some True\<rparr>, [])"
  using createEmbedding_requires_truthy_input
      [of "\<lparr>params = \<lparr>name = ''createEmbedding'', arguments = JObj [(''input'', JStr ''hello'')]\<rparr>\<rparr>"
          "stub_runtime unreachable"]
    createEmbedding_requires_truthy_input
      [of "\<lparr>params = \<lparr>name = ''createEmbedding'', arguments = JObj [(''input'', JNull)]\<rparr>\<rparr>"
          "stub_runtime unreachable"]
  by (simp add: log_call_primitive)

text \<open>
  The claim as written fails: the empty string is a present input (neither undefined nor
  null), and it is refused with \<^verbatim>\<open>Input is required\<close> before any upstream call.
\<close>

theorem createEmbedding_empty_input_counterexample:
  "property (JObj [(''input'', JStr [])]) ''input'' \<noteq> JUndefined
   \<and> property (JObj [(''input'', JStr [])]) ''input'' \<noteq> JNull
   \<and> createEmbedding (stub_runtime unreachable)
        \<lparr>params = \<lparr>name = ''createEmbedding'', arguments = JObj [(''input'', JStr [])]\<rparr>\<rparr> =
     (Inr \<lparr>content = [\<lparr>item_type = ''text'', item_text = JStr ''Error: Input is required''\<rparr>],
           metadata = Some [], isError = Some True\<rparr>, [])"
  by (simp add: createEmbedding_def createEmbedding_try_def Let_def catch_error_def text_item_def
      log_call_primitive)

text \<open>
  Claim C4, as amended. When chatCompletion reaches its \<^verbatim>\<open>try\<close> block (the request has an
  arguments object, and the log before the block could print the model) and \<^verbatim>\<open>messages\<close> is
  absent, not an array, or an empty array, that is, anything but a non-empty array, it returns
  the error envelope with the text
  \<^verbatim>\<open>Error: Messages array is required and must not be empty\<close>, and no upstream call is made.
\<close>

theorem chatCompletion_requires_messages:
  assumes "\<not> nullish (arguments (params request))"
    and "log_call rt [JStr ''Executing chatCompletion with model:'',
                      property (arguments (params request)) ''model''] = Inr ()"
    and "\<And>m ms. property (arguments (params request)) ''messages'' \<noteq> JArr (m # ms)"
  shows "chatCompletion rt request =
           (Inr \<lparr>content =
                   [\<lparr>item_type = ''text'',
                     item_text = JStr ''Error: Messages array is required and must not be empty''\<rparr>],
                 metadata = Some [], isError = Some True\<rparr>, [])"
  using chatCompletion_try_invalid [OF assms(3)]
  by (simp add: chatCompletion_enters [OF assms(1,2)] catch_error_Inl)

theorem chatCompletion_requires_messages_witness:
  "chatCompletion (stub_runtime unreachable)
       \<lparr>params = \<lparr>name = ''chatCompletion'', arguments = JObj [(''messages'', JArr [])]\<rparr>\<rparr> =
     (Inr \<lparr>content =
             [\<lparr>item_type = ''text'',
               item_text = JStr ''Error: Messages array is required and must not be empty''\<rparr>],
           metadata = Some [], isError = Some True\<rparr>, [])
   \<and> chatCompletion (stub_runtime unreachable)
       \<lparr>params = \<lparr>name = ''chatCompletion'', arguments = JObj [(''messages'', JStr ''hello'')]\<rparr>\<rparr> =
     (Inr \<lparr>content =
             [\<lparr>item_type = ''text'',
               item_text = JStr ''Error: Messages array is required and must not be empty''\<rparr>],
           metadata = Some [], isError = Some True\<rparr>, [])
   \<and> chatCompletion (stub_runtime unreachable)
       \<lparr>params = \<lparr>name = ''chatCompletion'', arguments = JObj []\<rparr>\<rparr> =
     (Inr \<lparr>content =
             [\<lparr>item_type = ''text'',
               item_text = JStr ''Error: Messages array is required and must not be empty''\<rparr>],
           metadata = Some [], isError = Some True\<rparr>, [])"
  using chatCompletion_requires_messages
      [of "\<lparr>params = \<lparr>name = ''chatCompletion'', arguments = JObj [(''messages'', JArr [])]\<rparr>\<rparr>"
          "stub_runtime unreachable"]
    chatCompletion_requires_messages
      [of "\<lparr>params = \<lparr>name = ''chatCompletion'', arguments = JObj [(''messages'', JStr ''hello'')]\<rparr>\<rparr>"
          "stub_runtime unreachable"]
    chatCompletion_requires_messages
      [of "\<lparr>params = \<lparr>name = ''chatCompletion'', arguments = JObj []\<rparr>\<rparr>"
          "stub_runtime unreachable"]
  by (simp add: log_call_primitive)

text \<open>
  The claim as written fails where the handler does not reach its \<^verbatim>\<open>try\<close> block. Invoked
  with no arguments object (so \<^verbatim>\<open>messages\<close> is absent), or, with \<^verbatim>\<open>DEBUG\<close> set, with an
  empty \<^verbatim>\<open>messages\<close> and a model object that owns a \<^verbatim>\<open>toString\<close> property, chatCompletion
  throws, and the invocation is answered by the dispatcher with the engine's message, not with
  the message about the messages array.
\<close>

theorem chatCompletion_messages_counterexample:
  "CallToolRequest_handler (stub_runtime unreachable)
       \<lparr>params = \<lparr>name = ''chatCompletion'', arguments = JUndefined\<rparr>\<rparr> =
     (Inr (Envelope \<lparr>content = [\<lparr>item_type = ''text'', item_text = JStr ''Error: engine fault''\<rparr>],
                     metadata = None, isError = Some True\<rparr>), [])
   \<and> CallToolRequest_handler (stub_runtime unreachable)
       \<lparr>params = \<lparr>name = ''chatCompletion'',
          arguments = JObj [(''model'', JObj [(''toString'', JNum 1)]),
                            (''messages'', JArr [])]\<rparr>\<rparr> =
     (Inr (Envelope \<lparr>content = [\<lparr>item_type = ''text'', item_text = JStr ''Error: engine fault''\<rparr>],
                     metadata = None, isError = Some True\<rparr>), [])"
  by (simp add: CallToolRequest_handler_def CallToolRequest_try_def HANDLERS_def
      Object_prototype_functions_def run_tool_def chatCompletion_def Let_def throw_def
      log_call_def bind_def stub_runtime_def text_item_def)

subsection \<open>The chat completion request\<close>

lemma chatCompletion_requests:
  "snd (chatCompletion rt request) = []
   \<or> snd (chatCompletion rt request) =
       [post_request rt ''/v1/chat/completions''
          (openaiRequest_chat (property (arguments (params request)) ''model'')
             (property (arguments (params request)) ''messages'')
             (property (arguments (params request)) ''temperature'')
             (property (arguments (params request)) ''max_tokens''))]"
proof (cases "nullish (arguments (params request))")
  case True
  then show ?thesis by (simp add: chatCompletion_leaves)
next
  case args: False
  from log_call_cases
  consider (passed) "log_call rt [JStr ''Executing chatCompletion with model:'',
                        property (arguments (params request)) ''model''] = Inr ()"
    | (thrown) e where "log_call rt [JStr ''Executing chatCompletion with model:'',
                          property (arguments (params request)) ''model''] = Inl e"
    by blast
  then show ?thesis
  proof cases
    case thrown
    with args show ?thesis by (simp add: chatCompletion_leaves)
  next
    case passed
    show ?thesis
    proof (cases "\<exists>m ms. property (arguments (params request)) ''messages'' = JArr (m # ms)")
      case True
      then obtain m ms where
        "property (arguments (params request)) ''messages'' = JArr (m # ms)"
        by blast
      with chatCompletion_calls [OF args passed this] show ?thesis by simp
    next
      case False
      then have "\<And>m ms. property (arguments (params request)) ''messages'' \<noteq> JArr (m # ms)"
        by blast
      from chatCompletion_try_invalid [OF this] show ?thesis
        by (simp add: chatCompletion_enters [OF args passed] snd_catch_error)
    qed
  qed
qed

text \<open>
  Claim C5. Every upstream request chatCompletion issues is the POST to the chat completions
  endpoint whose body holds \<^verbatim>\<open>model\<close>, \<^verbatim>\<open>messages\<close>, \<^verbatim>\<open>temperature\<close>, \<^verbatim>\<open>max_tokens\<close> and
  \<^verbatim>\<open>stream\<close>: the messages as given, the model \<^verbatim>\<open>gpt-3.5-turbo\<close> when \<^verbatim>\<open>model\<close> is
  omitted, temperature 0.7 when \<^verbatim>\<open>temperature\<close> is omitted, \<^verbatim>\<open>max_tokens\<close> 150 when
  \<^verbatim>\<open>max_tokens\<close> is omitted (a truthy model and a given temperature or \<^verbatim>\<open>max_tokens\<close> are
  passed on), and \<^verbatim>\<open>stream: false\<close> whatever the arguments hold. A valid
  invocation (an arguments object whose \<^verbatim>\<open>messages\<close> is a non-empty array, and a model the
  log before the \<^verbatim>\<open>try\<close> block can print) issues exactly one such request.
\<close>

theorem chatCompletion_request_defaults:
  "(\<forall>req \<in> set (snd (chatCompletion rt request)).
      url req = ''https://api.openai.com/v1/chat/completions''
      \<and> http_method req = ''POST''
      \<and> (\<exists>M T K.
            body req =
              Some (JObj [(''model'', M),
                          (''messages'', property (arguments (params request)) ''messages''),
                          (''temperature'', T),
                          (''max_tokens'', K),
                          (''stream'', JBool False)])
            \<and> (property (arguments (params request)) ''model'' = JUndefined \<longrightarrow>
                  M = JStr ''gpt-3.5-turbo'')
            \<and> (ToBoolean (property (arguments (params request)) ''model'') \<longrightarrow>
                  M = property (arguments (params request)) ''model'')
            \<and> (property (arguments (params request)) ''temperature'' = JUndefined \<longrightarrow>
                  T = JNum (7 / 10))
            \<and> (property (arguments (params request)) ''temperature'' \<noteq> JUndefined \<longrightarrow>
                  T = property (arguments (params request)) ''temperature'')
            \<and> (property (arguments (params request)) ''max_tokens'' = JUndefined \<longrightarrow>
                  K = JNum 150)
            \<and> (property (arguments (params request)) ''max_tokens'' \<noteq> JUndefined \<longrightarrow>
                  K = property (arguments (params request)) ''max_tokens'')))
   \<and> (\<not> nullish (arguments (params request))
        \<and> log_call rt [JStr ''Executing chatCompletion with model:'',
                        property (arguments (params request)) ''model''] = Inr ()
        \<and> (\<exists>m ms. property (arguments (params request)) ''messages'' = JArr (m # ms))
        \<longrightarrow> length (snd (chatCompletion rt request)) = 1)"
proof (intro conjI impI)
  from chatCompletion_requests [of rt request]
  show "\<forall>req \<in> set (snd (chatCompletion rt request)).
      url req = ''https://api.openai.com/v1/chat/completions''
      \<and> http_method req = ''POST''
      \<and> (\<exists>M T K.
            body req =
              Some (JObj [(''model'', M),
                          (''messages'', property (arguments (params request)) ''messages''),
                          (''temperature'', T),
                          (''max_tokens'', K),
                          (''stream'', JBool False)])
            \<and> (property (arguments (params request)) ''model'' = JUndefined \<longrightarrow>
                  M = JStr ''gpt-3.5-turbo'')
            \<and> (ToBoolean (property (arguments (params request)) ''model'') \<longrightarrow>
                  M = property (arguments (params request)) ''model'')
            \<and> (property (arguments (params request)) ''temperature'' = JUndefined \<longrightarrow>
                  T = JNum (7 / 10))
            \<and> (property (arguments (params request)) ''temperature'' \<noteq> JUndefined \<longrightarrow>
                  T = property (arguments (params request)) ''temperature'')
            \<and> (property (arguments (params request)) ''max_tokens'' = JUndefined \<longrightarrow>
                  K = JNum 150)
            \<and> (property (arguments (params request)) ''max_tokens'' \<noteq> JUndefined \<longrightarrow>
                  K = property (arguments (params request)) ''max_tokens''))"
    by (auto simp add: post_request_def openaiRequest_chat_def OPENAI_API_URL_def)
next
  assume "\<not> nullish (arguments (params request))
        \<and> log_call rt [JStr ''Executing chatCompletion with model:'',
                        property (arguments (params request)) ''model''] = Inr ()
        \<and> (\<exists>m ms. property (arguments (params request)) ''messages'' = JArr (m # ms))"
  then obtain m ms where "\<not> nullish (arguments (params request))"
    and "log_call rt [JStr ''Executing chatCompletion with model:'',
                      property (arguments (params request)) ''model''] = Inr ()"
    and "property (arguments (params request)) ''messages'' = JArr (m # ms)"
    by blast
  from chatCompletion_calls [OF this]
  show "length (snd (chatCompletion rt request)) = 1" by simp
qed

theorem chatCompletion_request_defaults_witness:
  "\<exists>req. snd (chatCompletion (stub_runtime unreachable)
              \<lparr>params = \<lparr>name = ''chatCompletion'',
                 arguments =
                   JObj [(''messages'',
                            JArr [JObj [(''role'', JStr ''user''), (''content'', JStr ''hi'')]]),
                         (''stream'', JBool True)]\<rparr>\<rparr>) = [req]
     \<and> url req = ''https://api.openai.com/v1/chat/completions''
     \<and> http_method req = ''POST''
     \<and> body req =
         Some (JObj [(''model'', JStr ''gpt-3.5-turbo''),
                     (''messages'',
                        JArr [JObj [(''role'', JStr ''user''), (''content'', JStr ''hi'')]]),
                     (''temperature'', JNum (7 / 10)),
                     (''max_tokens'', JNum 150),
                     (''stream'', JBool False)])"
proof -
  let ?request = "\<lparr>params = \<lparr>name = ''chatCompletion'',
                     arguments =
                       JObj [(''messages'',
                                JArr [JObj [(''role'', JStr ''user''), (''content'', JStr ''hi'')]]),
                             (''stream'', JBool True)]\<rparr>\<rparr>"
  let ?calls = "snd (chatCompletion (stub_runtime unreachable) ?request)"
  note claim = chatCompletion_request_defaults [of "stub_runtime unreachable" ?request]
  from claim have "length ?calls = 1"
    by (simp add: log_call_primitive)
  then obtain req where single: "?calls = [req]"
    by (cases ?calls) simp_all
  with claim have "url req = ''https://api.openai.com/v1/chat/completions''
     \<and> http_method req = ''POST''
     \<and> body req =
         Some (JObj [(''model'', JStr ''gpt-3.5-turbo''),
                     (''messages'',
                        JArr [JObj [(''role'', JStr ''user''), (''content'', JStr ''hi'')]]),
                     (''temperature'', JNum (7 / 10)),
                     (''max_tokens'', JNum 150),
                     (''stream'', JBool False)])"
    by auto
  with single show ?thesis by blast
qed

text \<open>
  Claim C10. In every upstream request chatCompletion issues, the defaults treat falsy
  arguments differently: a falsy \<^verbatim>\<open>model\<close> (the empty string, 0, false, null, or none) is
  replaced by \<^verbatim>\<open>gpt-3.5-turbo\<close>, while \<^verbatim>\<open>temperature: 0\<close> and \<^verbatim>\<open>max_tokens: 0\<close>, tested
  against undefined only, are sent to the upstream as 0. A valid invocation issues exactly one
  such request.
\<close>

theorem chatCompletion_falsy_arguments:
  "(\<forall>req \<in> set (snd (chatCompletion rt request)).
      url req = ''https://api.openai.com/v1/chat/completions''
      \<and> http_method req = ''POST''
      \<and> (\<exists>M T K.
            body req =
              Some (JObj [(''model'', M),
                          (''messages'', property (arguments (params request)) ''messages''),
                          (''temperature'', T),
                          (''max_tokens'', K),
                          (''stream'', JBool False)])
            \<and> (\<not> ToBoolean (property (arguments (params request)) ''model'') \<longrightarrow>
                  M = JStr ''gpt-3.5-turbo'')
            \<and> (property (arguments (params request)) ''temperature'' = JNum 0 \<longrightarrow> T = JNum 0)
            \<and> (property (arguments (params request)) ''max_tokens'' = JNum 0 \<longrightarrow> K = JNum 0)))
   \<and> (\<not> nullish (arguments (params request))
        \<and> log_call rt [JStr ''Executing chatCompletion with model:'',
                        property (arguments (params request)) ''model''] = Inr ()
        \<and> (\<exists>m ms. property (arguments (params request)) ''messages'' = JArr (m # ms))
        \<longrightarrow> length (snd (chatCompletion rt request)) = 1)"
proof (intro conjI impI)
  from chatCompletion_requests [of rt request]
  show "\<forall>req \<in> set (snd (chatCompletion rt request)).
      url req = ''https://api.openai.com/v1/chat/completions''
      \<and> http_method req = ''POST''
      \<and> (\<exists>M T K.
            body req =
              Some (JObj [(''model'', M),
                          (''messages'', property (arguments (params request)) ''messages''),
                          (''temperature'', T),
                          (''max_tokens'', K),
                          (''stream'', JBool False)])
            \<and> (\<not> ToBoolean (property (arguments (params request)) ''model'') \<longrightarrow>
                  M = JStr ''gpt-3.5-turbo'')
            \<and> (property (arguments (params request)) ''temperature'' = JNum 0 \<longrightarrow> T = JNum 0)
            \<and> (property (arguments (params request)) ''max_tokens'' = JNum 0 \<longrightarrow> K = JNum 0))"
    by (auto simp add: post_request_def openaiRequest_chat_def OPENAI_API_URL_def)
next
  assume "\<not> nullish (arguments (params request))
        \<and> log_call rt [JStr ''Executing chatCompletion with model:'',
                        property (arguments (params request)) ''model''] = Inr ()
        \<and> (\<exists>m ms. property (arguments (params request)) ''messages'' = JArr (m # ms))"
  then obtain m ms where "\<not> nullish (arguments (params request))"
    and "log_call rt [JStr ''Executing chatCompletion with model:'',
                      property (arguments (params request)) ''model''] = Inr ()"
    and "property (arguments (params request)) ''messages'' = JArr (m # ms)"
    by blast
  from chatCompletion_calls [OF this]
  show "length (snd (chatCompletion rt request)) = 1" by simp
qed

theorem chatCompletion_falsy_arguments_witness:
  "\<exists>req. snd (chatCompletion (stub_runtime unreachable)
              \<lparr>params = \<lparr>name = ''chatCompletion'',
                 arguments =
                   JObj [(''model'', JStr []), (''messages'', JArr [JObj []]),
                         (''temperature'', JNum 0), (''max_tokens'', JNum 0)]\<rparr>\<rparr>) = [req]
     \<and> url req = ''https://api.openai.com/v1/chat/completions''
     \<and> http_method req = ''POST''
     \<and> body req =
         Some (JObj [(''model'', JStr ''gpt-3.5-turbo''),
                     (''messages'', JArr [JObj []]),
                     (''temperature'', JNum 0),
                     (''max_tokens'', JNum 0),
                     (''stream'', JBool False)])"
proof -
  let ?request = "\<lparr>params = \<lparr>name = ''chatCompletion'',
                     arguments =
                       JObj [(''model'', JStr []), (''messages'', JArr [JObj []]),
                             (''temperature'', JNum 0), (''max_tokens'', JNum 0)]\<rparr>\<rparr>"
  let ?calls = "snd (chatCompletion (stub_runtime unreachable) ?request)"
  note claim = chatCompletion_falsy_arguments [of "stub_runtime unreachable" ?request]
  from claim have "length ?calls = 1"
    by (simp add: log_call_primitive)
  then obtain req where single: "?calls = [req]"
    by (cases ?calls) simp_all
  with claim have "url req = ''https://api.openai.com/v1/chat/completions''
     \<and> http_method req = ''POST''
     \<and> body req =
         Some (JObj [(''model'', JStr ''gpt-3.5-turbo''),
                     (''messages'', JArr [JObj []]),
                     (''temperature'', JNum 0),
                     (''max_tokens'', JNum 0),
                     (''stream'', JBool False)])"
    by auto
  with single show ?thesis by blast
qed

subsection \<open>Upstream answers\<close>

lemma chatCompletion_single_call:
  assumes "snd (chatCompletion rt request) = [req]"
  shows "\<exists>m ms. \<not> nullish (arguments (params request))
           \<and> log_call rt [JStr ''Executing chatCompletion with model:'',
                           property (arguments (params request)) ''model''] = Inr ()
           \<and> property (arguments (params request)) ''messages'' = JArr (m # ms)
           \<and> req = post_request rt ''/v1/chat/completions''
                     (openaiRequest_chat (property (arguments (params request)) ''model'')
                        (JArr (m # ms))
                        (property (arguments (params request)) ''temperature'')
                        (property (arguments (params request)) ''max_tokens''))"
proof (cases "nullish (arguments (params request))")
  case True
  with assms show ?thesis by (simp add: chatCompletion_leaves)
next
  case args: False
  from log_call_cases
  consider (passed) "log_call rt [JStr ''Executing chatCompletion with model:'',
                        property (arguments (params request)) ''model''] = Inr ()"
    | (thrown) e where "log_call rt [JStr ''Executing chatCompletion with model:'',
                          property (arguments (params request)) ''model''] = Inl e"
    by blast
  then show ?thesis
  proof cases
    case thrown
    with args assms show ?thesis by (simp add: chatCompletion_leaves)
  next
    case passed
    show ?thesis
    proof (cases "\<exists>m ms. property (arguments (params request)) ''messages'' = JArr (m # ms)")
      case True
      then obtain m ms where
        msgs: "property (arguments (params request)) ''messages'' = JArr (m # ms)"
        by blast
      from chatCompletion_calls [OF args passed msgs] assms args passed msgs
      show ?thesis by auto
    next
      case False
      then have "\<And>m ms. property (arguments (params request)) ''messages'' \<noteq> JArr (m # ms)"
        by blast
      from chatCompletion_try_invalid [OF this] assms show ?thesis
        by (simp add: chatCompletion_enters [OF args passed] snd_catch_error)
    qed
  qed
qed

lemma chatCompletion_after_fetch:
  assumes "snd (chatCompletion rt request) = [req]"
    and "fetch rt req = Inr response"
  shows "chatCompletion rt request =
           catch_error
             (bind (check_ok response) (\<lambda>_.
              bind (json_of response) (\<lambda>data.
              bind (Get rt data ''choices'') (\<lambda>choices.
              bind (Get rt choices ''0'') (\<lambda>choice.
              bind (Get rt choice ''message'') (\<lambda>msg.
              bind (Get rt msg ''content'') (\<lambda>assistantMessage.
              Inr \<lparr>content = [text_item assistantMessage],
                   metadata = Some [(''model'', property data ''model''),
                                    (''usage'', property data ''usage''),
                                    (''finish_reason'', property choice ''finish_reason'')],
                   isError = None\<rparr>)))))), [req])"
proof -
  from chatCompletion_single_call [OF assms(1)] obtain m ms where
    args: "\<not> nullish (arguments (params request))"
    and passed: "log_call rt [JStr ''Executing chatCompletion with model:'',
                              property (arguments (params request)) ''model''] = Inr ()"
    and msgs: "property (arguments (params request)) ''messages'' = JArr (m # ms)"
    and req: "req = post_request rt ''/v1/chat/completions''
                     (openaiRequest_chat (property (arguments (params request)) ''model'')
                        (JArr (m # ms))
                        (property (arguments (params request)) ''temperature'')
                        (property (arguments (params request)) ''max_tokens''))"
    by blast
  from assms(2) show ?thesis
    unfolding req
    by (simp add: chatCompletion_enters [OF args passed] msgs chatCompletion_try_valid bind_def)
qed

lemma createEmbedding_single_call:
  assumes "snd (createEmbedding rt request) = [req]"
  shows "\<not> nullish (arguments (params request))
         \<and> log_call rt [JStr ''Executing createEmbedding with model:'',
                         property (arguments (params request)) ''model''] = Inr ()
         \<and> ToBoolean (property (arguments (params request)) ''input'')
         \<and> req = post_request rt ''/v1/embeddings''
                   (openaiRequest_embedding (property (arguments (params request)) ''model'')
                      (property (arguments (params request)) ''input''))"
proof (cases "nullish (arguments (params request))")
  case True
  with assms show ?thesis by (simp add: createEmbedding_leaves)
next
  case args: False
  from log_call_cases
  consider (passed) "log_call rt [JStr ''Executing createEmbedding with model:'',
                        property (arguments (params request)) ''model''] = Inr ()"
    | (thrown) e where "log_call rt [JStr ''Executing createEmbedding with model:'',
                          property (arguments (params request)) ''model''] = Inl e"
    by blast
  then show ?thesis
  proof cases
    case thrown
    with args assms show ?thesis by (simp add: createEmbedding_leaves)
  next
    case passed
    with args assms show ?thesis
      by (auto simp add: createEmbedding_enters [OF args passed] snd_catch_error
          createEmbedding_try_calls split: if_splits)
  qed
qed

lemma createEmbedding_after_fetch:
  assumes "snd (createEmbedding rt request) = [req]"
    and "fetch rt req = Inr response"
  shows "createEmbedding rt request =
           catch_error
             (bind (check_ok response) (\<lambda>_.
              bind (json_of response) (\<lambda>data.
              bind (Get rt data ''data'') (\<lambda>list.
              bind (Get rt list ''0'') (\<lambda>first.
              bind (Get rt first ''embedding'') (\<lambda>embedding.
              bind (Get rt embedding ''length'') (\<lambda>dimension.
              bind (ToString rt dimension) (\<lambda>dimension_text.
              Inr \<lparr>content =
                     [text_item (JStr (''Embedding generated successfully. Vector dimension: ''
                                       @ dimension_text))],
                   metadata = Some [(''model'', property data ''model''),
                                    (''usage'', property data ''usage'')],
                   isError = None\<rparr>))))))), [req])"
proof -
  from createEmbedding_single_call [OF assms(1)] have
    args: "\<not> nullish (arguments (params request))"
    and passed: "log_call rt [JStr ''Executing createEmbedding with model:'',
                              property (arguments (params request)) ''model''] = Inr ()"
    and input: "ToBoolean (property (arguments (params request)) ''input'')"
    and req: "req = post_request rt ''/v1/embeddings''
                   (openaiRequest_embedding (property (arguments (params request)) ''model'')
                      (property (arguments (params request)) ''input''))"
    by simp_all
  from assms(2) input show ?thesis
    unfolding req
    by (simp add: createEmbedding_enters [OF args passed] createEmbedding_try_def Let_def bind_def)
qed

lemma check_ok_failed:
  "\<not> ok response \<Longrightarrow> text_of response = Inr B \<Longrightarrow>
     check_ok response = Inl (Error (''OpenAI API error: '' @ B))"
  by (simp add: check_ok_def bind_def)

lemma check_ok_passed: "ok response \<Longrightarrow> check_ok response = Inr ()"
  by (simp add: check_ok_def)

text \<open>
  Claim C6. When the upstream answers the chat completion call with success and a body in
  which \<^verbatim>\<open>choices[0].message.content\<close> can be read, the envelope returned has the single text
  item whose text is that content, no \<^verbatim>\<open>isError\<close>, and as metadata exactly \<^verbatim>\<open>model\<close> and
  \<^verbatim>\<open>usage\<close> of the body and \<^verbatim>\<open>finish_reason\<close> of \<^verbatim>\<open>choices[0]\<close>.
\<close>

theorem chatCompletion_success_envelope:
  assumes "snd (chatCompletion rt request) = [req]"
    and "fetch rt req = Inr response"
    and "ok response"
    and "json_of response = Inr data"
    and "Get rt data ''choices'' = Inr choices"
    and "Get rt choices ''0'' = Inr choice"
    and "Get rt choice ''message'' = Inr msg"
    and "Get rt msg ''content'' = Inr assistantMessage"
  shows "fst (chatCompletion rt request) =
           Inr \<lparr>content = [\<lparr>item_type = ''text'', item_text = assistantMessage\<rparr>],
                metadata = Some [(''model'', property data ''model''),
                                 (''usage'', property data ''usage''),
                                 (''finish_reason'', property choice ''finish_reason'')],
                isError = None\<rparr>"
  unfolding chatCompletion_after_fetch [OF assms(1,2)]
  using assms(3-)
  by (simp add: check_ok_passed bind_def catch_error_Inr text_item_def)

theorem chatCompletion_success_envelope_witness:
  "fst (chatCompletion
          (stub_runtime
             (replies True []
                (JObj [(''model'', JStr ''x''),
                       (''choices'',
                          JArr [JObj [(''message'', JObj [(''content'', JStr ''hi'')]),
                                      (''finish_reason'', JStr ''stop'')]]),
                       (''usage'',
                          JObj [(''prompt_tokens'', JNum 3), (''completion_tokens'', JNum 1)])])))
          \<lparr>params = \<lparr>name = ''chatCompletion'',
             arguments = JObj [(''messages'', JArr [JObj [(''role'', JStr ''user'')]])]\<rparr>\<rparr>) =
     Inr \<lparr>content = [\<lparr>item_type = ''text'', item_text = JStr ''hi''\<rparr>],
          metadata =
            Some [(''model'', JStr ''x''),
                  (''usage'', JObj [(''prompt_tokens'', JNum 3), (''completion_tokens'', JNum 1)]),
                  (''finish_reason'', JStr ''stop'')],
          isError = None\<rparr>"
proof -
  let ?data = "JObj [(''model'', JStr ''x''),
                     (''choices'',
                        JArr [JObj [(''message'', JObj [(''content'', JStr ''hi'')]),
                                    (''finish_reason'', JStr ''stop'')]]),
                     (''usage'',
                        JObj [(''prompt_tokens'', JNum 3), (''completion_tokens'', JNum 1)])]"
  let ?rt = "stub_runtime (replies True [] ?data)"
  let ?request = "\<lparr>params = \<lparr>name = ''chatCompletion'',
                     arguments = JObj [(''messages'', JArr [JObj [(''role'', JStr ''user'')]])]\<rparr>\<rparr>"
  let ?choice = "JObj [(''message'', JObj [(''content'', JStr ''hi'')]),
                       (''finish_reason'', JStr ''stop'')]"
  have calls: "snd (chatCompletion ?rt ?request) =
                 [post_request ?rt ''/v1/chat/completions''
                    (openaiRequest_chat JUndefined (JArr [JObj [(''role'', JStr ''user'')]])
                       JUndefined JUndefined)]"
    using chatCompletion_calls [of ?request ?rt "JObj [(''role'', JStr ''user'')]" "[]"]
    by (simp add: log_call_primitive)
  have answer: "fetch ?rt (post_request ?rt ''/v1/chat/completions''
                    (openaiRequest_chat JUndefined (JArr [JObj [(''role'', JStr ''user'')]])
                       JUndefined JUndefined)) =
                  Inr \<lparr>ok = True, text_of = Inr [], json_of = Inr ?data\<rparr>"
    by (simp add: stub_runtime_def replies_def)
  from chatCompletion_success_envelope
         [OF calls answer, of ?data "JArr [?choice]" ?choice "JObj [(''content'', JStr ''hi'')]"
            "JStr ''hi''"]
  show ?thesis by (simp add: Get_def)
qed

text \<open>
  Claim C8. When the upstream answers a handler's call with a non-success status and the body
  text \<open>B\<close>, the handler returns (it does not throw) the error envelope whose text is
  \<^verbatim>\<open>Error: OpenAI API error: B\<close> for chatCompletion and createEmbedding and
  \<^verbatim>\<open>Error listing models: OpenAI API error: B\<close> for listModels.
\<close>

theorem upstream_error_envelope:
  assumes "\<not> ok response"
    and "text_of response = Inr B"
  shows "(fetch rt (listModels_request rt) = Inr response \<longrightarrow>
            listModels rt =
              (Inr \<lparr>content =
                      [\<lparr>item_type = ''text'',
                        item_text = JStr (''Error listing models: OpenAI API error: '' @ B)\<rparr>],
                    metadata = Some [], isError = Some True\<rparr>, [listModels_request rt]))
       \<and> (snd (chatCompletion rt request) = [req] \<and> fetch rt req = Inr response \<longrightarrow>
            chatCompletion rt request =
              (Inr \<lparr>content =
                      [\<lparr>item_type = ''text'',
                        item_text = JStr (''Error: OpenAI API error: '' @ B)\<rparr>],
                    metadata = Some [], isError = Some True\<rparr>, [req]))
       \<and> (snd (createEmbedding rt request) = [req] \<and> fetch rt req = Inr response \<longrightarrow>
            createEmbedding rt request =
              (Inr \<lparr>content =
                      [\<lparr>item_type = ''text'',
                        item_text = JStr (''Error: OpenAI API error: '' @ B)\<rparr>],
                    metadata = Some [], isError = Some True\<rparr>, [req]))"
proof (intro conjI impI)
  assume "fetch rt (listModels_request rt) = Inr response"
  then show "listModels rt =
      (Inr \<lparr>content =
              [\<lparr>item_type = ''text'',
                item_text = JStr (''Error listing models: OpenAI API error: '' @ B)\<rparr>],
            metadata = Some [], isError = Some True\<rparr>, [listModels_request rt])"
    by (simp add: listModels_def listModels_try_def bind_def check_ok_failed [OF assms]
        text_item_def)
next
  assume "snd (chatCompletion rt request) = [req] \<and> fetch rt req = Inr response"
  then have "snd (chatCompletion rt request) = [req]" and "fetch rt req = Inr response"
    by simp_all
  from chatCompletion_after_fetch [OF this]
  show "chatCompletion rt request =
      (Inr \<lparr>content =
              [\<lparr>item_type = ''text'', item_text = JStr (''Error: OpenAI API error: '' @ B)\<rparr>],
            metadata = Some [], isError = Some True\<rparr>, [req])"
    by (simp add: bind_def check_ok_failed [OF assms] catch_error_Inl)
next
  assume "snd (createEmbedding rt request) = [req] \<and> fetch rt req = Inr response"
  then have "snd (createEmbedding rt request) = [req]" and "fetch rt req = Inr response"
    by simp_all
  from createEmbedding_after_fetch [OF this]
  show "createEmbedding rt request =
      (Inr \<lparr>content =
              [\<lparr>item_type = ''text'', item_text = JStr (''Error: OpenAI API error: '' @ B)\<rparr>],
            metadata = Some [], isError = Some True\<rparr>, [req])"
    by (simp add: bind_def check_ok_failed [OF assms] catch_error_Inl)
qed

theorem upstream_error_envelope_witness:
  "listModels (stub_runtime (replies False ''rate limited'' JNull)) =
     (Inr \<lparr>content =
             [\<lparr>item_type = ''text'',
               item_text = JStr ''Error listing models: OpenAI API error: rate limited''\<rparr>],
           metadata = Some [], isError = Some True\<rparr>,
      [listModels_request (stub_runtime (replies False ''rate limited'' JNull))])
   \<and> chatCompletion (stub_runtime (replies False ''rate limited'' JNull))
        \<lparr>params = \<lparr>name = ''chatCompletion'',
           arguments = JObj [(''messages'', JArr [JObj [(''role'', JStr ''user'')]])]\<rparr>\<rparr> =
     (Inr \<lparr>content =
             [\<lparr>item_type = ''text'', item_text = JStr ''Error: OpenAI API error: rate limited''\<rparr>],
           metadata = Some [], isError = Some True\<rparr>,
      [post_request (stub_runtime (replies False ''rate limited'' JNull)) ''/v1/chat/completions''
         (openaiRequest_chat JUndefined (JArr [JObj [(''role'', JStr ''user'')]])
            JUndefined JUndefined)])
   \<and> createEmbedding (stub_runtime (replies False ''rate limited'' JNull))
        \<lparr>params = \<lparr>name = ''createEmbedding'', arguments = JObj [(''input'', JStr ''hello'')]\<rparr>\<rparr> =
     (Inr \<lparr>content =
             [\<lparr>item_type = ''text'', item_text = JStr ''Error: OpenAI API error: rate limited''\<rparr>],
           metadata = Some [], isError = Some True\<rparr>,
      [post_request (stub_runtime (replies False ''rate limited'' JNull)) ''/v1/embeddings''
         (openaiRequest_embedding JUndefined (JStr ''hello''))])"
proof -
  let ?rt = "stub_runtime (replies False ''rate limited'' JNull)"
  let ?response = "\<lparr>ok = False, text_of = Inr ''rate limited'', json_of = Inr JNull\<rparr>"
  let ?chat = "\<lparr>params = \<lparr>name = ''chatCompletion'',
                  arguments = JObj [(''messages'', JArr [JObj [(''role'', JStr ''user'')]])]\<rparr>\<rparr>"
  let ?embed = "\<lparr>params = \<lparr>name = ''createEmbedding'',
                   arguments = JObj [(''input'', JStr ''hello'')]\<rparr>\<rparr>"
  have status: "\<not> ok ?response" and raw: "text_of ?response = Inr ''rate limited''"
    by simp_all
  have answers: "\<And>req. fetch ?rt req = Inr ?response"
    by (simp add: stub_runtime_def replies_def)
  have chat_calls: "snd (chatCompletion ?rt ?chat) =
      [post_request ?rt ''/v1/chat/completions''
         (openaiRequest_chat JUndefined (JArr [JObj [(''role'', JStr ''user'')]])
            JUndefined JUndefined)]"
    using chatCompletion_calls [of ?chat ?rt "JObj [(''role'', JStr ''user'')]" "[]"]
    by (simp add: log_call_primitive)
  have embed_calls: "snd (createEmbedding ?rt ?embed) =
      [post_request ?rt ''/v1/embeddings'' (openaiRequest_embedding JUndefined (JStr ''hello''))]"
    by (simp add: createEmbedding_enters log_call_primitive snd_catch_error
        createEmbedding_try_calls)
  from upstream_error_envelope [OF status raw, of ?rt ?chat
         "post_request ?rt ''/v1/chat/completions''
            (openaiRequest_chat JUndefined (JArr [JObj [(''role'', JStr ''user'')]])
               JUndefined JUndefined)"]
    upstream_error_envelope [OF status raw, of ?rt ?embed
         "post_request ?rt ''/v1/embeddings'' (openaiRequest_embedding JUndefined (JStr ''hello''))"]
  show ?thesis
    by (simp add: answers chat_calls embed_calls)
qed

subsection \<open>Listing models\<close>







subsection \<open>Discovery\<close>

text \<open>
  Claim C9. The discovery handler is a constant: whatever the runtime (the upstream, the
  environment) it returns the same value, the three descriptors in declaration order
  listModels, chatCompletion, createEmbedding, and it issues no upstream call.
\<close>

theorem listTools_constant:
  "ListToolsRequest_handler rt = ListToolsRequest_handler rt'
   \<and> snd (ListToolsRequest_handler rt) = []
   \<and> fst (ListToolsRequest_handler rt) =
       Inr (JObj [(''tools'',
                   JArr [LIST_MODELS_TOOL, CHAT_COMPLETION_TOOL, CREATE_EMBEDDING_TOOL])])
   \<and> map (\<lambda>t. property t ''name'')
         [LIST_MODELS_TOOL, CHAT_COMPLETION_TOOL, CREATE_EMBEDDING_TOOL] =
       [JStr ''listModels'', JStr ''chatCompletion'', JStr ''createEmbedding'']"
  by (simp add: ListToolsRequest_handler_def LIST_MODELS_TOOL_def CHAT_COMPLETION_TOOL_def
      CREATE_EMBEDDING_TOOL_def)

subsection \<open>The envelope of every invocation\<close>

lemma listModels_returns:
  "\<exists>s md e. listModels rt =
       (Inr \<lparr>content = [\<lparr>item_type = ''text'', item_text = JStr s\<rparr>],
             metadata = Some md, isError = e\<rparr>, [listModels_request rt])
     \<and> (e = None \<or> e = Some True)"
  by (simp add: listModels_def listModels_try_def bind_def text_item_def split: sum.splits)

lemma chatCompletion_try_returns:
  "\<exists>r calls. chatCompletion_try rt model messages temperature max_tokens = (r, calls)
     \<and> length calls \<le> 1
     \<and> (\<forall>env. r = Inr env \<longrightarrow>
           (\<exists>t md. env = \<lparr>content = [\<lparr>item_type = ''text'', item_text = t\<rparr>],
                           metadata = Some md, isError = None\<rparr>))"
  by (simp add: chatCompletion_try_def Let_def bind_def text_item_def split: sum.splits)

lemma createEmbedding_try_returns:
  "\<exists>r calls. createEmbedding_try rt model input = (r, calls)
     \<and> length calls \<le> 1
     \<and> (\<forall>env. r = Inr env \<longrightarrow>
           (\<exists>s md. env = \<lparr>content = [\<lparr>item_type = ''text'', item_text = JStr s\<rparr>],
                           metadata = Some md, isError = None\<rparr>))"
  by (simp add: createEmbedding_try_def Let_def bind_def text_item_def split: sum.splits)

lemma chatCompletion_returns:
  assumes "\<not> nullish (arguments (params request))"
    and "log_call rt [JStr ''Executing chatCompletion with model:'',
                      property (arguments (params request)) ''model''] = Inr ()"
  shows "\<exists>t md e calls. chatCompletion rt request =
           (Inr \<lparr>content = [\<lparr>item_type = ''text'', item_text = t\<rparr>],
                 metadata = Some md, isError = e\<rparr>, calls)
         \<and> ((\<exists>s. t = JStr s) \<or> e = None) \<and> (e = None \<or> e = Some True)
         \<and> length calls \<le> 1"
proof -
  let ?block = "chatCompletion_try rt (property (arguments (params request)) ''model'')
                (property (arguments (params request)) ''messages'')
                (property (arguments (params request)) ''temperature'')
                (property (arguments (params request)) ''max_tokens'')"
  from chatCompletion_try_returns obtain r calls where
    r: "?block = (r, calls)" and calls: "length calls \<le> 1"
    and env: "\<forall>env. r = Inr env \<longrightarrow>
           (\<exists>t md. env = \<lparr>content = [\<lparr>item_type = ''text'', item_text = t\<rparr>],
                           metadata = Some md, isError = None\<rparr>)"
    by blast
  have run: "chatCompletion rt request = catch_error (r, calls)"
    using r by (simp add: chatCompletion_enters [OF assms])
  show ?thesis
  proof (cases r)
    case (Inl error)
    with run calls show ?thesis by (simp add: catch_error_Inl)
  next
    case (Inr result)
    with env obtain t md where
      "result = \<lparr>content = [\<lparr>item_type = ''text'', item_text = t\<rparr>],
                 metadata = Some md, isError = None\<rparr>"
      by blast
    with Inr run calls show ?thesis by (simp add: catch_error_Inr)
  qed
qed

lemma createEmbedding_returns:
  assumes "\<not> nullish (arguments (params request))"
    and "log_call rt [JStr ''Executing createEmbedding with model:'',
                      property (arguments (params request)) ''model''] = Inr ()"
  shows "\<exists>s md e calls. createEmbedding rt request =
           (Inr \<lparr>content = [\<lparr>item_type = ''text'', item_text = JStr s\<rparr>],
                 metadata = Some md, isError = e\<rparr>, calls)
         \<and> (e = None \<or> e = Some True) \<and> length calls \<le> 1"
proof -
  let ?block = "createEmbedding_try rt (property (arguments (params request)) ''model'')
                (property (arguments (params request)) ''input'')"
  from createEmbedding_try_returns obtain r calls where
    r: "?block = (r, calls)" and calls: "length calls \<le> 1"
    and env: "\<forall>env. r = Inr env \<longrightarrow>
           (\<exists>s md. env = \<lparr>content = [\<lparr>item_type = ''text'', item_text = JStr s\<rparr>],
                           metadata = Some md, isError = None\<rparr>)"
    by blast
  have run: "createEmbedding rt request = catch_error (r, calls)"
    using r by (simp add: createEmbedding_enters [OF assms])
  show ?thesis
  proof (cases r)
    case (Inl error)
    with run calls show ?thesis by (simp add: catch_error_Inl)
  next
    case (Inr result)
    with env obtain s md where
      "result = \<lparr>content = [\<lparr>item_type = ''text'', item_text = JStr s\<rparr>],
                 metadata = Some md, isError = None\<rparr>"
      by blast
    with Inr run calls show ?thesis by (simp add: catch_error_Inr)
  qed
qed

lemma dispatch_own:
  assumes "HANDLERS (name (params request)) = Own t"
  shows "CallToolRequest_handler rt request =
           (case run_tool rt t request of
              (Inl error, calls) \<Rightarrow>
                (Inr (Envelope \<lparr>content =
                                  [\<lparr>item_type = ''text'',
                                    item_text = JStr (''Error: '' @ message error)\<rparr>],
                                metadata = None, isError = Some True\<rparr>), calls)
            | (Inr result, calls) \<Rightarrow> (Inr (Envelope result), calls))"
  using assms
  by (simp add: CallToolRequest_handler_def CallToolRequest_try_def text_item_def
      split: prod.splits sum.splits)

lemma HANDLERS_cases:
  assumes "n \<notin> set Object_prototype_functions" and "n \<noteq> ''__proto__''"
  shows "HANDLERS n =
           (if n = ''listModels'' then Own ListModels
            else if n = ''chatCompletion'' then Own ChatCompletion
            else if n = ''createEmbedding'' then Own CreateEmbedding
            else Absent)"
  using assms by (simp add: HANDLERS_def)

text \<open>
  Claim C1, as amended. For every invocation whose tool name is not a property the handler
  table inherits from \<^verbatim>\<open>Object.prototype\<close>, whatever the arguments and whatever the upstream
  does, the call returns (no exception leaves it) an envelope with exactly one content item,
  of type \<^verbatim>\<open>text\<close>; \<^verbatim>\<open>isError\<close> is absent or true; the text is a string, except in a
  successful chatCompletion, where it is whatever the upstream body holds as content; at most
  one upstream call is made. The \<^verbatim>\<open>metadata\<close> field is present exactly when the envelope
  was built by a registered handler. It is absent from the dispatcher's own error envelope,
  which has \<^verbatim>\<open>isError\<close> true: for an unknown name, and for chatCompletion or createEmbedding
  when the handler threw before its \<^verbatim>\<open>try\<close> block (no arguments object, or a model the log
  could not print).
\<close>

theorem invocation_returns_envelope:
  assumes "name (params request) \<notin> set Object_prototype_functions"
    and "name (params request) \<noteq> ''__proto__''"
  shows "\<exists>t md e calls.
           CallToolRequest_handler rt request =
             (Inr (Envelope \<lparr>content = [\<lparr>item_type = ''text'', item_text = t\<rparr>],
                             metadata = md, isError = e\<rparr>), calls)
           \<and> ((\<exists>s. t = JStr s) \<or> (name (params request) = ''chatCompletion'' \<and> e = None))
           \<and> (e = None \<or> e = Some True)
           \<and> (md = None \<longleftrightarrow>
                 (name (params request) \<noteq> ''listModels''
                  \<and> (name (params request) = ''chatCompletion'' \<longrightarrow>
                        nullish (arguments (params request))
                        \<or> log_call rt [JStr ''Executing chatCompletion with model:'',
                                        property (arguments (params request)) ''model'']
                           \<noteq> Inr ())
                  \<and> (name (params request) = ''createEmbedding'' \<longrightarrow>
                        nullish (arguments (params request))
                        \<or> log_call rt [JStr ''Executing createEmbedding with model:'',
                                        property (arguments (params request)) ''model'']
                           \<noteq> Inr ())))
           \<and> (md = None \<longrightarrow> e = Some True)
           \<and> length calls \<le> 1"
proof -
  let ?n = "name (params request)"
  note table = HANDLERS_cases [OF assms]
  consider (models) "?n = ''listModels''"
    | (chat) "?n = ''chatCompletion''"
    | (embedding) "?n = ''createEmbedding''"
    | (unknown) "?n \<noteq> ''listModels''" "?n \<noteq> ''chatCompletion''" "?n \<noteq> ''createEmbedding''"
    by blast
  then show ?thesis
  proof cases
    case models
    with table have own: "HANDLERS ?n = Own ListModels" by simp
    from listModels_returns [of rt] obtain s md e where
      "listModels rt =
         (Inr \<lparr>content = [\<lparr>item_type = ''text'', item_text = JStr s\<rparr>],
               metadata = Some md, isError = e\<rparr>, [listModels_request rt])"
      and "e = None \<or> e = Some True"
      by blast
    with models show ?thesis
      by (simp add: dispatch_own [OF own] run_tool_def)
  next
    case chat
    with table have own: "HANDLERS ?n = Own ChatCompletion" by simp
    let ?log = "log_call rt [JStr ''Executing chatCompletion with model:'',
                             property (arguments (params request)) ''model'']"
    show ?thesis
    proof (cases "nullish (arguments (params request))")
      case True
      with chat show ?thesis
        by (simp add: dispatch_own [OF own] run_tool_def chatCompletion_leaves)
    next
      case args: False
      show ?thesis
      proof (cases ?log)
        case (Inl error)
        with chat args show ?thesis
          by (simp add: dispatch_own [OF own] run_tool_def chatCompletion_leaves)
      next
        case (Inr u)
        then have passed: "?log = Inr ()" by simp
        from chatCompletion_returns [OF args passed] obtain t md e calls where
          "chatCompletion rt request =
             (Inr \<lparr>content = [\<lparr>item_type = ''text'', item_text = t\<rparr>],
                   metadata = Some md, isError = e\<rparr>, calls)"
          and "(\<exists>s. t = JStr s) \<or> e = None" and "e = None \<or> e = Some True"
          and "length calls \<le> 1"
          by blast
        with chat args passed show ?thesis
          by (simp add: dispatch_own [OF own] run_tool_def)
      qed
    qed
  next
    case embedding
    with table have own: "HANDLERS ?n = Own CreateEmbedding" by simp
    let ?log = "log_call rt [JStr ''Executing createEmbedding with model:'',
                             property (arguments (params request)) ''model'']"
    show ?thesis
    proof (cases "nullish (arguments (params request))")
      case True
      with embedding show ?thesis
        by (simp add: dispatch_own [OF own] run_tool_def createEmbedding_leaves)
    next
      case args: False
      show ?thesis
      proof (cases ?log)
        case (Inl error)
        with embedding args show ?thesis
          by (simp add: dispatch_own [OF own] run_tool_def createEmbedding_leaves)
      next
        case (Inr u)
        then have passed: "?log = Inr ()" by simp
        from createEmbedding_returns [OF args passed] obtain s md e calls where
          "createEmbedding rt request =
             (Inr \<lparr>content = [\<lparr>item_type = ''text'', item_text = JStr s\<rparr>],
                   metadata = Some md, isError = e\<rparr>, calls)"
          and "e = None \<or> e = Some True" and "length calls \<le> 1"
          by blast
        with embedding args passed show ?thesis
          by (simp add: dispatch_own [OF own] run_tool_def)
      qed
    qed
  next
    case unknown
    with table have "HANDLERS ?n = Absent" by simp
    with unknown show ?thesis
      by (simp add: CallToolRequest_handler_def CallToolRequest_try_def text_item_def)
  qed
qed

theorem invocation_returns_envelope_witness:
  "''createEmbedding'' \<notin> set Object_prototype_functions
   \<and> (\<exists>t md e calls.
         CallToolRequest_handler (stub_runtime unreachable)
             \<lparr>params = \<lparr>name = ''createEmbedding'', arguments = JUndefined\<rparr>\<rparr> =
           (Inr (Envelope \<lparr>content = [\<lparr>item_type = ''text'', item_text = t\<rparr>],
                           metadata = md, isError = e\<rparr>), calls)
         \<and> (\<exists>s. t = JStr s) \<and> md = None \<and> e = Some True \<and> length calls \<le> 1)
   \<and> (\<exists>t md e calls.
         CallToolRequest_handler (stub_runtime unreachable)
             \<lparr>params = \<lparr>name = ''listModels'', arguments = JUndefined\<rparr>\<rparr> =
           (Inr (Envelope \<lparr>content = [\<lparr>item_type = ''text'', item_text = t\<rparr>],
                           metadata = md, isError = e\<rparr>), calls)
         \<and> (\<exists>s. t = JStr s) \<and> md \<noteq> None \<and> (e = None \<or> e = Some True)
         \<and> length calls \<le> 1)"
proof -
  have names: "''createEmbedding'' \<notin> set Object_prototype_functions"
    "''listModels'' \<notin> set Object_prototype_functions"
    by (simp_all add: Object_prototype_functions_def)
  from invocation_returns_envelope
         [of "\<lparr>params = \<lparr>name = ''createEmbedding'', arguments = JUndefined\<rparr>\<rparr>"
             "stub_runtime unreachable"]
    invocation_returns_envelope
         [of "\<lparr>params = \<lparr>name = ''listModels'', arguments = JUndefined\<rparr>\<rparr>"
             "stub_runtime unreachable"]
    names
  show ?thesis
    by simp blast
qed

text \<open>
  The claim as written fails in three ways: the envelope for an unknown tool has no
  \<^verbatim>\<open>metadata\<close> field; the name \<^verbatim>\<open>toString\<close>, inherited by the handler table, makes the
  invocation return a bare string; and a successful chatCompletion passes on a content that is
  not a string (here null).
\<close>

theorem invocation_envelope_counterexample:
  "fst (CallToolRequest_handler (stub_runtime unreachable)
          \<lparr>params = \<lparr>name = ''bar'', arguments = JObj []\<rparr>\<rparr>) =
     Inr (Envelope \<lparr>content = [\<lparr>item_type = ''text'', item_text = JStr ''Error: Unknown tool: bar''\<rparr>],
                    metadata = None, isError = Some True\<rparr>)
   \<and> fst (CallToolRequest_handler (stub_runtime unreachable)
          \<lparr>params = \<lparr>name = ''toString'', arguments = JObj []\<rparr>\<rparr>) =
     Inr (StringValue ''[object Undefined]'')
   \<and> fst (CallToolRequest_handler
            (stub_runtime
               (replies True []
                  (JObj [(''choices'', JArr [JObj [(''message'', JObj [(''content'', JNull)])]])])))
            \<lparr>params = \<lparr>name = ''chatCompletion'',
               arguments = JObj [(''messages'', JArr [JObj []])]\<rparr>\<rparr>) =
     Inr (Envelope \<lparr>content = [\<lparr>item_type = ''text'', item_text = JNull\<rparr>],
                    metadata = Some [(''model'', JUndefined), (''usage'', JUndefined),
                                     (''finish_reason'', JUndefined)],
                    isError = None\<rparr>)"
  by (simp add: CallToolRequest_handler_def CallToolRequest_try_def HANDLERS_def
      Object_prototype_functions_def call_builtin_def run_tool_def chatCompletion_def
      chatCompletion_try_def catch_error_def Let_def bind_def check_ok_def Get_def
      log_call_def stub_runtime_def replies_def text_item_def)

end
